theory Spec2Isabelle
  imports Main "HOL-Library.Sublist"
begin

section \<open>Events and timestamps\<close>

text \<open>
  What both programs read of an event object: \<open>event_type\<close> and \<open>src_path\<close>. A watchdog
  event adds \<open>is_directory\<close>; a \<open>FileEventWrapper\<close> of \<open>file_viewer.py\<close> adds the
  \<open>timestamp\<close> taken in its \<open>__init__\<close>.
\<close>

record event_fields =
  event_type :: string
  src_path :: string

record raw_event = event_fields +
  is_directory :: bool

record FileEventWrapper = event_fields +
  timestamp :: int

text \<open>
  A naive \<open>datetime\<close> is a count of microseconds. The text that
  \<open>strftime('%Y-%m-%d %H:%M:%S')\<close> produces names one whole second, and
  \<open>strptime\<close> with the same format reads that second back with a microsecond part of
  zero; the text is identified here with the number of the second it names.
\<close>

type_synonym datetime = int

definition strftime :: "datetime \<Rightarrow> int" where
  "strftime t = t div 1000000"

definition strptime :: "int \<Rightarrow> datetime" where
  "strptime s = s * 1000000"

definition timedelta_minutes :: "int \<Rightarrow> int" where
  "timedelta_minutes m = m * 60 * 1000000"

definition FileEventWrapper_init :: "datetime \<Rightarrow> raw_event \<Rightarrow> FileEventWrapper" where
  "FileEventWrapper_init now event =
     \<lparr>event_type = event_type event,
      src_path = src_path event,
      timestamp = strftime now\<rparr>"

datatype cell = Str string | Stamp int

type_synonym row = "(string \<times> cell) list"

definition to_dict :: "FileEventWrapper \<Rightarrow> row" where
  "to_dict self =
     [(''event_type'', Str (event_type self)),
      (''src_path'', Str (src_path self)),
      (''timestamp'', Stamp (timestamp self))]"

section \<open>The event handlers\<close>

text \<open>Python's \<open>sub in s\<close> on strings: \<open>sub\<close> occurs in \<open>s\<close> as a contiguous run.\<close>

fun str_contains :: "string \<Rightarrow> string \<Rightarrow> bool" where
  "str_contains sub [] = (sub = [])"
| "str_contains sub (c # cs) = (prefix sub (c # cs) \<or> str_contains sub cs)"

text \<open>
  \<open>FileEventHandler.on_any_event\<close> of \<open>file_viewer.py\<close>. The queue is the list of the
  objects put and not yet taken, oldest first; \<open>put\<close> on the unbounded \<open>queue.Queue\<close>
  appends at the end. The line written to the log file is left out.
\<close>

definition on_any_event ::
  "datetime \<Rightarrow> raw_event \<Rightarrow> FileEventWrapper list \<Rightarrow> FileEventWrapper list" where
  "on_any_event now event event_queue =
     (if \<not> is_directory event
         \<and> \<not> list_ex (\<lambda>ignored. str_contains ignored (src_path event))
               [''.DS_Store'', ''.localized'']
      then event_queue @ [FileEventWrapper_init now event]
      else event_queue)"

text \<open>\<open>FileEventHandler.on_any_event\<close> of \<open>file_viewer_0.py\<close>: the raw event is queued.\<close>

definition on_any_event_0 :: "raw_event \<Rightarrow> raw_event list \<Rightarrow> raw_event list" where
  "on_any_event_0 event event_queue =
     (if \<not> is_directory event then event_queue @ [event] else event_queue)"

text \<open>
  The directory views of \<open>file_viewer.py\<close> (\<open>display_file_listing_as_tree\<close>,
  \<open>display_latest_file\<close>) keep a directory entry when
  \<open>file.name not in [".DS_Store", ".localized"]\<close>. \<open>path_name\<close> is pathlib's \<open>name\<close> of a
  path without a trailing slash: what follows the last \<open>/\<close>.
\<close>

definition path_name :: "string \<Rightarrow> string" where
  "path_name p = rev (takeWhile (\<lambda>c. c \<noteq> CHR ''/'') (rev p))"

definition valid_files :: "string list \<Rightarrow> string list" where
  "valid_files entries =
     [file. file \<leftarrow> entries, path_name file \<notin> set [''.DS_Store'', ''.localized'']]"

section \<open>Session state and the drain\<close>

text \<open>
  \<open>st.session_state\<close>. An \<open>Observer\<close> is a thread object on the heap; the session holds a
  reference to it, here its index in the list of the observers created so far.
\<close>

record session_state =
  event_queue :: "FileEventWrapper list"
  observer :: "nat option"
  event_list :: "FileEventWrapper list"
  monitoring :: bool

definition initial_session_state :: session_state where
  "initial_session_state =
     \<lparr>event_queue = [], observer = None, event_list = [], monitoring = False\<rparr>"

text \<open>
  The loop of \<open>check_events_and_update\<close>, with no other thread running: one round takes
  the oldest queued event and appends it to \<open>event_list\<close>.
\<close>

function check_events_loop :: "bool \<Rightarrow> session_state \<Rightarrow> bool \<times> session_state" where
  "check_events_loop events_processed s =
     (case event_queue s of
        [] \<Rightarrow> (events_processed, s)
      | event # rest \<Rightarrow>
          check_events_loop True
            (s\<lparr>event_queue := rest, event_list := event_list s @ [event]\<rparr>))"
  by pat_completeness auto
termination
  by (relation "measure (\<lambda>(b, s). length (event_queue s))") auto

declare check_events_loop.simps [simp del]

definition check_events_and_update :: "session_state \<Rightarrow> bool \<times> session_state" where
  "check_events_and_update s = check_events_loop False s"

section \<open>Recent events\<close>

text \<open>
  The list that \<open>display_recent_events\<close> builds, and what the function shows. \<open>now\<close> is
  the clock read by \<open>datetime.now()\<close>.
\<close>

definition recent_events :: "datetime \<Rightarrow> FileEventWrapper list \<Rightarrow> row list" where
  "recent_events now events =
     (let cutoff_time = now - timedelta_minutes 5
      in [to_dict event. event \<leftarrow> events, strptime (timestamp event) \<ge> cutoff_time])"

datatype ui =
    Title string
  | Subheader string
  | Error string
  | Success string
  | Info string
  | Dataframe "row list"

definition display_recent_events :: "datetime \<Rightarrow> session_state \<Rightarrow> ui list" where
  "display_recent_events now s =
     Subheader ''New Events'' #
     (if event_list s \<noteq> [] then
        (if recent_events now (event_list s) \<noteq> []
         then [Dataframe (recent_events now (event_list s))]
         else [Info ''No events in the last 5 minutes.''])
      else [])"

section \<open>Observers and the script\<close>

record observer_thread =
  watch_path :: string
  alive :: bool

record process =
  state :: session_state
  observers :: "observer_thread list"

definition initial_process :: process where
  "initial_process = \<lparr>state = initial_session_state, observers = []\<rparr>"

text \<open>
  \<open>start_observer\<close> creates an observer scheduled on \<open>path\<close>, starts its thread and returns
  it. \<open>stop_observer\<close> returns when \<open>observer.join()\<close> has: the thread has ended.
\<close>

definition start_observer :: "string \<Rightarrow> process \<Rightarrow> nat \<times> process" where
  "start_observer path w =
     (length (observers w),
      w\<lparr>observers := observers w @ [\<lparr>watch_path = path, alive = True\<rparr>]\<rparr>)"

definition stop_observer :: "nat \<Rightarrow> process \<Rightarrow> process" where
  "stop_observer ob w =
     (if ob < length (observers w)
      then w\<lparr>observers := (observers w)[ob := (observers w ! ob)\<lparr>alive := False\<rparr>]\<rparr>
      else w)"

text \<open>
  What one run of the script is given: \<open>os.path.exists\<close> and \<open>os.path.expanduser\<close>, the
  clock, the text of the folder input, and the button whose click started the run. A
  button that the run does not draw returns nothing, whatever was clicked.
\<close>

record os_path =
  path_exists :: "string \<Rightarrow> bool"
  expanduser :: "string \<Rightarrow> string"

datatype click = NoClick | StartMonitoring | StopMonitoring

text \<open>The monitoring controls of \<open>main\<close> (the two buttons in \<open>col1\<close>).\<close>

definition monitoring_controls :: "string \<Rightarrow> click \<Rightarrow> process \<Rightarrow> ui list \<times> process" where
  "monitoring_controls folder_path clicked w =
     (if \<not> monitoring (state w) then
        (if clicked = StartMonitoring then
           (let (ob, w1) = start_observer folder_path w
            in ([Success (''Started monitoring '' @ folder_path)],
                w1\<lparr>state := (state w1)\<lparr>observer := Some ob, monitoring := True\<rparr>\<rparr>))
         else ([], w))
      else
        (if clicked = StopMonitoring then
           (let w1 = (case observer (state w) of
                        Some ob \<Rightarrow>
                          (let w0 = stop_observer ob w
                           in w0\<lparr>state := (state w0)\<lparr>observer := None\<rparr>\<rparr>)
                      | None \<Rightarrow> w)
            in ([Success ''Stopped monitoring''],
                w1\<lparr>state := (state w1)\<lparr>monitoring := False\<rparr>\<rparr>))
         else ([], w)))"

text \<open>
  \<open>main\<close> of \<open>file_viewer.py\<close>: the drain when monitoring, the folder check (\<open>st.stop()\<close>
  ends the run there), the controls, the recent events. The refresh slider and the two
  directory views read the file system only and are left out.
\<close>

definition main ::
  "os_path \<Rightarrow> datetime \<Rightarrow> string \<Rightarrow> click \<Rightarrow> process \<Rightarrow> ui list \<times> process" where
  "main os now text_input clicked w =
     (let w1 = (if monitoring (state w)
                then w\<lparr>state := snd (check_events_and_update (state w))\<rparr>
                else w);
          folder_path = expanduser os text_input
      in if folder_path = [] \<or> \<not> path_exists os folder_path
         then ([Title ''Enhanced Real-Time File Viewer'',
                Error ''Please enter a valid folder path.''], w1)
         else
           (let (shown, w2) = monitoring_controls folder_path clicked w1
            in (Title ''Enhanced Real-Time File Viewer'' # shown
                  @ display_recent_events now (state w2), w2)))"

text \<open>
  What happens to the process over time: a live observer thread calls the handler on the
  session's queue, or the script runs once more (a click or the refresh timer).
\<close>

datatype occurrence =
    Callback nat datetime raw_event
  | Rerun os_path datetime string click

fun occur :: "occurrence \<Rightarrow> process \<Rightarrow> process" where
  "occur (Callback ob now event) w =
     (if ob < length (observers w) \<and> alive (observers w ! ob)
      then w\<lparr>state := (state w)\<lparr>event_queue :=
                on_any_event now event (event_queue (state w))\<rparr>\<rparr>
      else w)"
| "occur (Rerun os now text_input clicked) w = snd (main os now text_input clicked w)"

fun exec :: "occurrence list \<Rightarrow> process \<Rightarrow> process" where
  "exec [] w = w"
| "exec (x # xs) w = exec xs (occur x w)"


text \<open>Every event that the session holds, queued or in the history, passed the handler's test.\<close>

definition passed :: "session_state \<Rightarrow> bool" where
  "passed s \<longleftrightarrow>
     list_all (\<lambda>e. \<not> str_contains ''.DS_Store'' (src_path e)
                  \<and> \<not> str_contains ''.localized'' (src_path e))
       (event_queue s @ event_list s)"

text \<open>A file system in which every path exists and \<open>~\<close> needs no expansion.\<close>

definition every_path :: os_path where
  "every_path = \<lparr>path_exists = (\<lambda>p. True), expanduser = (\<lambda>p. p)\<rparr>"

section \<open>Configuration\<close>

datatype yaml = YNone | YInt int | YStr string | YSeq "yaml list" | YMap "(string \<times> yaml) list"

datatype py_error = YAMLError string | OSError string

text \<open>
  \<open>load_config\<close>: \<open>files\<close> gives the text of a file that exists; \<open>safe_load\<close> is
  \<open>yaml.safe_load\<close>.
\<close>

definition load_config ::
  "(string \<Rightarrow> string option) \<Rightarrow> (string \<Rightarrow> py_error + yaml) \<Rightarrow> py_error + yaml" where
  "load_config files safe_load =
     (let config_path = ''.file_viewer.yaml''
      in case files config_path of
           Some file \<Rightarrow> safe_load file
         | None \<Rightarrow> Inr (YMap [(''refresh_rate'', YInt 15000),
                              (''starting_directory'', YStr ''~/Downloads'')]))"

section \<open>The two threads, statement by statement\<close>

text \<open>
  The observer thread calls \<open>on_any_event\<close>; the script thread runs
  \<open>check_events_and_update\<close>. \<open>put\<close>, \<open>empty\<close> and \<open>get\<close> each hold the queue's lock, so
  a run of the two threads is a sequence of these steps. \<open>pc\<close> is the statement the
  script thread executes next: \<open>Idle\<close> outside the function, \<open>Test\<close> at the loop
  condition, \<open>Get\<close> at \<open>event_queue.get()\<close>, \<open>Append event\<close> at
  \<open>event_list.append(event)\<close>.
\<close>

datatype pc = Idle | Test | Get | Append FileEventWrapper

record threads =
  shared :: session_state
  at :: pc
  events_processed :: bool







section \<open>Substring test\<close>

lemma str_contains_sublist: "str_contains sub s = sublist sub s"
  by (induction s) (simp_all add: sublist_Cons_right)

lemma str_contains_iff: "str_contains sub s \<longleftrightarrow> (\<exists>pre post. s = pre @ sub @ post)"
  by (simp add: str_contains_sublist sublist_def)

section \<open>The drain loop\<close>

lemma check_events_loop_eq:
  "check_events_loop b s =
     (b \<or> event_queue s \<noteq> [], s\<lparr>event_queue := [], event_list := event_list s @ event_queue s\<rparr>)"
proof (induction b s rule: check_events_loop.induct)
  case (1 b s)
  show ?case
  proof (cases "event_queue s")
    case Nil
    then show ?thesis by (subst check_events_loop.simps) simp
  next
    case (Cons event rest)
    then show ?thesis using "1.IH" [OF Cons]
      by (subst check_events_loop.simps) simp
  qed
qed

lemma check_events_and_update_eq:
  "check_events_and_update s =
     (event_queue s \<noteq> [], s\<lparr>event_queue := [], event_list := event_list s @ event_queue s\<rparr>)"
  by (simp add: check_events_and_update_def check_events_loop_eq)

section \<open>Conservation of events between the two threads\<close>









section \<open>What a run of the script keeps\<close>

lemma main_drains:
  "state (snd (main os now text_input clicked w)) =
     (let s = (if monitoring (state w) then snd (check_events_and_update (state w)) else state w)
      in state (snd (if expanduser os text_input = [] \<or> \<not> path_exists os (expanduser os text_input)
                     then ([], w\<lparr>state := s\<rparr>)
                     else monitoring_controls (expanduser os text_input) clicked (w\<lparr>state := s\<rparr>))))"
  by (simp add: main_def Let_def split: prod.splits)

lemma controls_history:
  "event_list (state (snd (monitoring_controls p c w))) = event_list (state w)
   \<and> event_queue (state (snd (monitoring_controls p c w))) = event_queue (state w)"
  by (simp add: monitoring_controls_def start_observer_def stop_observer_def Let_def
      split: option.splits)

lemma main_history:
  "event_list (state (snd (main os now text_input clicked w))) @
   event_queue (state (snd (main os now text_input clicked w)))
   = event_list (state w) @ event_queue (state w)"
  by (simp add: main_drains Let_def controls_history check_events_and_update_eq)

lemma passed_on_any_event:
  "passed s \<Longrightarrow> passed (s\<lparr>event_queue := on_any_event now event (event_queue s)\<rparr>)"
  by (simp add: passed_def on_any_event_def FileEventWrapper_init_def)

lemma passed_occur: "passed (state w) \<Longrightarrow> passed (state (occur x w))"
proof (cases x)
  case (Callback ob now event)
  assume "passed (state w)"
  then show ?thesis using Callback passed_on_any_event [of "state w" now event] by simp
next
  case (Rerun os now text_input clicked)
  assume p: "passed (state w)"
  have "set (event_queue (state (occur x w)) @ event_list (state (occur x w)))
        = set (event_queue (state w) @ event_list (state w))"
    using main_history [of os now text_input clicked w] Rerun
    by (metis occur.simps(2) set_append sup_commute)
  with p show ?thesis by (simp add: passed_def list_all_iff)
qed

lemma passed_exec: "passed (state w) \<Longrightarrow> passed (state (exec xs w))"
  by (induction xs arbitrary: w) (simp_all add: passed_occur)

lemma passed_initial: "passed (state initial_process)"
  by (simp add: passed_def initial_process_def initial_session_state_def)

section \<open>The session and the observers agree\<close>



lemma controls_start:
  "\<not> monitoring (state w) \<Longrightarrow>
   monitoring_controls p StartMonitoring w =
     ([Success (''Started monitoring '' @ p)],
      \<lparr>state = (state w)\<lparr>observer := Some (length (observers w)), monitoring := True\<rparr>,
       observers = observers w @ [\<lparr>watch_path = p, alive = True\<rparr>]\<rparr>)"
  by (simp add: monitoring_controls_def start_observer_def)


lemma controls_idle:
  "\<not> monitoring (state w) \<Longrightarrow> c \<noteq> StartMonitoring \<Longrightarrow> monitoring_controls p c w = ([], w)"
  by (simp add: monitoring_controls_def)

lemma controls_busy:
  "monitoring (state w) \<Longrightarrow> c \<noteq> StopMonitoring \<Longrightarrow> monitoring_controls p c w = ([], w)"
  by (simp add: monitoring_controls_def)




lemma main_snd:
  "snd (main os now text_input clicked w) =
     (if expanduser os text_input = [] \<or> \<not> path_exists os (expanduser os text_input)
      then (if monitoring (state w)
            then w\<lparr>state := snd (check_events_and_update (state w))\<rparr> else w)
      else snd (monitoring_controls (expanduser os text_input) clicked
             (if monitoring (state w)
              then w\<lparr>state := snd (check_events_and_update (state w))\<rparr> else w)))"
  by (simp add: main_def Let_def split: prod.splits)




lemma path_name_suffix: "\<exists>pre. p = pre @ path_name p"
proof -
  have "rev p = takeWhile (\<lambda>c. c \<noteq> CHR ''/'') (rev p) @ dropWhile (\<lambda>c. c \<noteq> CHR ''/'') (rev p)"
    by simp
  then have "p = rev (dropWhile (\<lambda>c. c \<noteq> CHR ''/'') (rev p)) @ path_name p"
    unfolding path_name_def by (metis rev_append rev_rev_ident)
  then show ?thesis ..
qed

lemma str_contains_path_name: "str_contains (path_name p) p"
proof -
  obtain pre where "p = pre @ path_name p @ []" using path_name_suffix [of p] by auto
  then show ?thesis unfolding str_contains_iff by blast
qed

lemma main_fst:
  "fst (main os now text_input clicked w) =
     (if expanduser os text_input = [] \<or> \<not> path_exists os (expanduser os text_input)
      then [Title ''Enhanced Real-Time File Viewer'', Error ''Please enter a valid folder path.'']
      else Title ''Enhanced Real-Time File Viewer''
           # fst (monitoring_controls (expanduser os text_input) clicked
                (if monitoring (state w)
                 then w\<lparr>state := snd (check_events_and_update (state w))\<rparr> else w))
           @ display_recent_events now (state (snd (main os now text_input clicked w))))"
  by (simp add: main_def Let_def split: prod.splits)

lemma controls_fst:
  "fst (monitoring_controls p c w) =
     (if \<not> monitoring (state w) \<and> c = StartMonitoring then [Success (''Started monitoring '' @ p)]
      else if monitoring (state w) \<and> c = StopMonitoring then [Success ''Stopped monitoring'']
      else [])"
  by (simp add: monitoring_controls_def Let_def split: prod.splits)

lemma display_dataframe:
  "Dataframe rows \<in> set (display_recent_events now s) \<Longrightarrow>
   rows = recent_events now (event_list s)"
  by (simp add: display_recent_events_def split: if_splits)

lemma main_dataframe:
  assumes "Dataframe rows \<in> set (fst (main os now text_input clicked w))"
  shows "rows = recent_events now (event_list (state (snd (main os now text_input clicked w))))"
proof (cases "expanduser os text_input = [] \<or> \<not> path_exists os (expanduser os text_input)")
  case True
  with assms show ?thesis unfolding main_fst by simp
next
  case False
  with assms have "Dataframe rows \<in> set (display_recent_events now
      (state (snd (main os now text_input clicked w))))"
    unfolding main_fst controls_fst by (simp split: if_splits)
  then show ?thesis by (rule display_dataframe)
qed

lemma recent_events_src_path:
  "row \<in> set (recent_events now events) \<Longrightarrow> (''src_path'', Str p) \<in> set row \<Longrightarrow>
   \<exists>e \<in> set events. src_path e = p"
  by (auto simp: recent_events_def to_dict_def)

section \<open>The drain and its result\<close>

text \<open>
  C8, as the code has it: for every session state, \<open>check_events_and_update\<close> moves the
  whole queue to the end of \<open>event_list\<close>, in queue order, and leaves the queue empty. What
  it returns is the flag \<open>events_processed\<close>, true exactly when at least one event was
  taken; it is not the number of events.
\<close>

theorem check_events_and_update_drains:
  "check_events_and_update s =
     (event_queue s \<noteq> [],
      s\<lparr>event_queue := [], event_list := event_list s @ event_queue s\<rparr>)"
  by (rule check_events_and_update_eq)

text \<open>
  With two events queued the drain takes two events and returns \<open>True\<close>, which as a number
  is 1.
\<close>

theorem check_events_and_update_returns_flag:
  "of_bool (fst (check_events_and_update
      \<lparr>event_queue = [\<lparr>event_type = ''created'', src_path = ''/d/a'', timestamp = 1\<rparr>,
                      \<lparr>event_type = ''modified'', src_path = ''/d/a'', timestamp = 2\<rparr>],
       observer = Some 0, event_list = [], monitoring = True\<rparr>)) = (1 :: nat)
   \<and> length (event_list (snd (check_events_and_update
      \<lparr>event_queue = [\<lparr>event_type = ''created'', src_path = ''/d/a'', timestamp = 1\<rparr>,
                      \<lparr>event_type = ''modified'', src_path = ''/d/a'', timestamp = 2\<rparr>],
       observer = Some 0, event_list = [], monitoring = True\<rparr>))) = 2"
  by (simp add: check_events_and_update_eq)

section \<open>The default configuration\<close>

text \<open>
  C10: when \<open>.file_viewer.yaml\<close> does not exist, \<open>load_config\<close> returns the dictionary
  with \<open>refresh_rate\<close> 15000 and \<open>starting_directory\<close> \<open>~/Downloads\<close>, and nothing else.
\<close>

theorem load_config_default:
  "files ''.file_viewer.yaml'' = None \<Longrightarrow>
   load_config files safe_load =
     Inr (YMap [(''refresh_rate'', YInt 15000), (''starting_directory'', YStr ''~/Downloads'')])"
  by (simp add: load_config_def)

theorem load_config_default_witness:
  "load_config (\<lambda>p. None) (\<lambda>t. Inl (YAMLError t)) =
     Inr (YMap [(''refresh_rate'', YInt 15000), (''starting_directory'', YStr ''~/Downloads'')])"
  using load_config_default [of "\<lambda>p. None" "\<lambda>t. Inl (YAMLError t)"] by simp

section \<open>The window of recent events\<close>

text \<open>
  C3, as the code has it: the list built at clock time \<open>now\<close> holds, in the order of
  \<open>event_list\<close>, the rows of exactly the events whose timestamp is at or after
  \<open>now\<close> minus five minutes (300000000 microseconds). So a cutoff is met by asking five
  minutes after it; the five minutes themselves are fixed in the function.
\<close>

theorem recent_events_five_minutes:
  "recent_events now events =
     map to_dict (filter (\<lambda>event. now - 300000000 \<le> timestamp event * 1000000) events)
   \<and> recent_events (cutoff + 300000000) events =
     map to_dict (filter (\<lambda>event. cutoff \<le> timestamp event * 1000000) events)"
  by (induction events) (simp_all add: recent_events_def strptime_def timedelta_minutes_def)

text \<open>
  An event ten minutes old lies within a window of fifteen minutes, and the list built at
  that time does not hold it: no wider window can be asked for.
\<close>

theorem recent_events_no_wider_window:
  "1000000000 - timedelta_minutes 15
     \<le> strptime (timestamp \<lparr>event_type = ''created'', src_path = ''/d/a'', timestamp = 400\<rparr>)
   \<and> recent_events 1000000000
        [\<lparr>event_type = ''created'', src_path = ''/d/a'', timestamp = 400\<rparr>] = []"
  by (simp add: recent_events_def strptime_def timedelta_minutes_def)

text \<open>
  C4, as the code has it: with a history of three events stamped 10 seconds, 4 minutes
  and 10 minutes before the second \<open>T\<close>, the list built at any instant of that second
  holds the first two, in that order, and not the third.
\<close>

theorem recent_events_three:
  "0 \<le> us \<Longrightarrow> us < 1000000 \<Longrightarrow>
   recent_events (T * 1000000 + us)
     [e1\<lparr>timestamp := T - 10\<rparr>, e2\<lparr>timestamp := T - 240\<rparr>, e3\<lparr>timestamp := T - 600\<rparr>]
   = [to_dict (e1\<lparr>timestamp := T - 10\<rparr>), to_dict (e2\<lparr>timestamp := T - 240\<rparr>)]"
  by (simp add: recent_events_def strptime_def timedelta_minutes_def)

theorem recent_events_three_witness:
  "(0 :: int) \<le> 0 \<and> (0 :: int) < 1000000 \<and>
   recent_events (1000 * 1000000 + 0)
     [\<lparr>event_type = ''created'', src_path = ''/d/a'', timestamp = 1000 - 10\<rparr>,
      \<lparr>event_type = ''modified'', src_path = ''/d/b'', timestamp = 1000 - 240\<rparr>,
      \<lparr>event_type = ''deleted'', src_path = ''/d/c'', timestamp = 1000 - 600\<rparr>]
   = [to_dict \<lparr>event_type = ''created'', src_path = ''/d/a'', timestamp = 1000 - 10\<rparr>,
      to_dict \<lparr>event_type = ''modified'', src_path = ''/d/b'', timestamp = 1000 - 240\<rparr>]"
  using recent_events_three [of 0 1000
      "\<lparr>event_type = ''created'', src_path = ''/d/a'', timestamp = 0\<rparr>"
      "\<lparr>event_type = ''modified'', src_path = ''/d/b'', timestamp = 0\<rparr>"
      "\<lparr>event_type = ''deleted'', src_path = ''/d/c'', timestamp = 0\<rparr>"]
  by simp

text \<open>At \<open>T\<close> = 1000 seconds the list is not the single row of the 4-minute event.\<close>

theorem recent_events_three_not_one:
  "recent_events (1000 * 1000000)
     [\<lparr>event_type = ''created'', src_path = ''/d/a'', timestamp = 1000 - 10\<rparr>,
      \<lparr>event_type = ''modified'', src_path = ''/d/b'', timestamp = 1000 - 240\<rparr>,
      \<lparr>event_type = ''deleted'', src_path = ''/d/c'', timestamp = 1000 - 600\<rparr>]
   \<noteq> [to_dict \<lparr>event_type = ''modified'', src_path = ''/d/b'', timestamp = 1000 - 240\<rparr>]"
  by (simp add: recent_events_def strptime_def timedelta_minutes_def)

section \<open>The two handlers\<close>

text \<open>
  C9: the handler of \<open>file_viewer_0.py\<close> queues an event exactly when it is not a
  directory event; the handler of \<open>file_viewer.py\<close> queues it exactly when, in addition,
  neither \<open>.DS_Store\<close> nor \<open>.localized\<close> occurs in its path. So whatever the second
  queues the first queues too, and some event is queued by the first and not by the
  second: the two are not equivalent.
\<close>

theorem handlers_differ:
  "(on_any_event_0 event q0 \<noteq> q0 \<longleftrightarrow> \<not> is_directory event)
   \<and> (on_any_event now event q \<noteq> q \<longleftrightarrow>
        \<not> is_directory event \<and> \<not> str_contains ''.DS_Store'' (src_path event)
        \<and> \<not> str_contains ''.localized'' (src_path event))
   \<and> (on_any_event now event q \<noteq> q \<longrightarrow> on_any_event_0 event q0 \<noteq> q0)
   \<and> (\<exists>e. on_any_event_0 e q0 \<noteq> q0 \<and> on_any_event now e q = q)"
proof -
  let ?e = "\<lparr>event_type = ''modified'', src_path = ''.DS_Store'', is_directory = False\<rparr>"
  have "on_any_event_0 ?e q0 \<noteq> q0 \<and> on_any_event now ?e q = q"
    by (simp add: on_any_event_0_def on_any_event_def)
  then have "\<exists>e. on_any_event_0 e q0 \<noteq> q0 \<and> on_any_event now e q = q" ..
  then show ?thesis by (simp add: on_any_event_0_def on_any_event_def)
qed

theorem handlers_differ_witness:
  "on_any_event 0 \<lparr>event_type = ''created'', src_path = ''/d/a.txt'', is_directory = False\<rparr> []
     \<noteq> []
   \<and> on_any_event_0 \<lparr>event_type = ''created'', src_path = ''/d/a.txt'', is_directory = False\<rparr> []
     \<noteq> []"
proof -
  have "on_any_event 0
          \<lparr>event_type = ''created'', src_path = ''/d/a.txt'', is_directory = False\<rparr> [] \<noteq> []"
    by (simp add: on_any_event_def)
  then show ?thesis
    using handlers_differ [of "\<lparr>event_type = ''created'', src_path = ''/d/a.txt'',
      is_directory = False\<rparr>" "[]" 0 "[]"] by blast
qed

section \<open>What the handler lets through\<close>

lemma passed_path:
  assumes "passed s" "e \<in> set (event_list s)"
  shows "\<not> str_contains ''.DS_Store'' (src_path e) \<and> \<not> str_contains ''.localized'' (src_path e)"
  using assms by (simp add: passed_def list_all_iff)

lemma passed_main: "passed (state w) \<Longrightarrow> passed (state (snd (main os now text_input clicked w)))"
  using passed_occur [of w "Rerun os now text_input clicked"] by simp

text \<open>
  The handler's test in full: it appends a record (type, path, the second of the clock)
  exactly when the event is not a directory event and neither \<open>.DS_Store\<close> nor
  \<open>.localized\<close> occurs anywhere in its path, as a contiguous run of characters; otherwise
  the queue is unchanged. An event whose file name is \<open>.DS_Store\<close> or \<open>.localized\<close> is
  therefore suppressed, and whatever has happened to the process since its start, no row
  of a table of recent events shown by a run of the script carries such a path.
\<close>

lemma on_any_event_suppression:
  "on_any_event now event q =
     (if \<not> is_directory event \<and> \<not> str_contains ''.DS_Store'' (src_path event)
         \<and> \<not> str_contains ''.localized'' (src_path event)
      then q @ [\<lparr>event_type = event_type event, src_path = src_path event,
                  timestamp = now div 1000000\<rparr>]
      else q)
   \<and> (str_contains sub s \<longleftrightarrow> (\<exists>pre post. s = pre @ sub @ post))
   \<and> (path_name (src_path event) = ''.DS_Store'' \<or> path_name (src_path event) = ''.localized''
        \<longrightarrow> on_any_event now event q = q)
   \<and> (\<forall>rows. Dataframe rows \<in> set (fst (main os now' text_input clicked (exec xs initial_process)))
        \<longrightarrow> (\<forall>row \<in> set rows. \<forall>p. (''src_path'', Str p) \<in> set row \<longrightarrow>
               \<not> str_contains ''.DS_Store'' p \<and> \<not> str_contains ''.localized'' p
               \<and> path_name p \<noteq> ''.DS_Store'' \<and> path_name p \<noteq> ''.localized''))"
proof (intro conjI)
  show "on_any_event now event q =
     (if \<not> is_directory event \<and> \<not> str_contains ''.DS_Store'' (src_path event)
         \<and> \<not> str_contains ''.localized'' (src_path event)
      then q @ [\<lparr>event_type = event_type event, src_path = src_path event,
                  timestamp = now div 1000000\<rparr>]
      else q)"
    by (simp add: on_any_event_def FileEventWrapper_init_def strftime_def)
  show "str_contains sub s \<longleftrightarrow> (\<exists>pre post. s = pre @ sub @ post)"
    by (rule str_contains_iff)
  show "path_name (src_path event) = ''.DS_Store'' \<or> path_name (src_path event) = ''.localized''
        \<longrightarrow> on_any_event now event q = q"
    using str_contains_path_name [of "src_path event"] by (auto simp: on_any_event_def)
  show "\<forall>rows. Dataframe rows \<in> set (fst (main os now' text_input clicked (exec xs initial_process)))
        \<longrightarrow> (\<forall>row \<in> set rows. \<forall>p. (''src_path'', Str p) \<in> set row \<longrightarrow>
               \<not> str_contains ''.DS_Store'' p \<and> \<not> str_contains ''.localized'' p
               \<and> path_name p \<noteq> ''.DS_Store'' \<and> path_name p \<noteq> ''.localized'')"
  proof (intro allI impI ballI)
    fix rows row p
    let ?w = "exec xs initial_process"
    let ?s = "state (snd (main os now' text_input clicked ?w))"
    assume "Dataframe rows \<in> set (fst (main os now' text_input clicked ?w))"
    then have rows: "rows = recent_events now' (event_list ?s)" by (rule main_dataframe)
    assume "row \<in> set rows" and "(''src_path'', Str p) \<in> set row"
    with rows obtain e where e: "e \<in> set (event_list ?s)" "src_path e = p"
      using recent_events_src_path by blast
    have "passed ?s" using passed_exec [OF passed_initial] by (rule passed_main)
    from passed_path [OF this e(1)] e(2)
    have no: "\<not> str_contains ''.DS_Store'' p" "\<not> str_contains ''.localized'' p" by simp_all
    with str_contains_path_name [of p]
    show "\<not> str_contains ''.DS_Store'' p \<and> \<not> str_contains ''.localized'' p
          \<and> path_name p \<noteq> ''.DS_Store'' \<and> path_name p \<noteq> ''.localized''"
      by metis
  qed
qed

text \<open>
  C1: the claim's test is an exact match of the file name, the one the directory views of
  the same file make (\<open>file.name not in [".DS_Store", ".localized"]\<close>). The handler tests
  the whole path for an occurrence instead, and so departs from it: the event of the file
  \<open>/d/notes.localized.txt\<close> is not a directory event, its name \<open>notes.localized.txt\<close> is
  neither \<open>.DS_Store\<close> nor \<open>.localized\<close>, the directory views keep the file, and the
  handler queues nothing.
\<close>

theorem on_any_event_not_exact_name:
  "\<not> is_directory \<lparr>event_type = ''created'', src_path = ''/d/notes.localized.txt'',
        is_directory = False\<rparr>
   \<and> path_name ''/d/notes.localized.txt'' = ''notes.localized.txt''
   \<and> ''notes.localized.txt'' \<noteq> ''.DS_Store'' \<and> ''notes.localized.txt'' \<noteq> ''.localized''
   \<and> valid_files [''/d/notes.localized.txt''] = [''/d/notes.localized.txt'']
   \<and> on_any_event 5000000 \<lparr>event_type = ''created'', src_path = ''/d/notes.localized.txt'',
        is_directory = False\<rparr> [] = []"
  by (simp add: path_name_def valid_files_def on_any_event_def)

section \<open>Every pushed event is delivered once, in push order\<close>






section \<open>The history across monitoring sessions\<close>

lemma main_event_list:
  "event_list (state (snd (main os now text_input clicked w))) =
     (if monitoring (state w) then event_list (state w) @ event_queue (state w)
      else event_list (state w))"
  by (simp add: main_drains Let_def controls_history check_events_and_update_eq)

lemma occur_event_list: "prefix (event_list (state w)) (event_list (state (occur x w)))"
  by (cases x) (simp_all add: main_event_list)

lemma exec_event_list: "prefix (event_list (state w)) (event_list (state (exec xs w)))"
proof (induction xs arbitrary: w)
  case Nil
  show ?case by simp
next
  case (Cons x xs)
  have "prefix (event_list (state w)) (event_list (state (occur x w)))"
    by (rule occur_event_list)
  also have "prefix \<dots> (event_list (state (exec xs (occur x w))))" by (rule Cons.IH)
  finally show ?case by simp
qed

lemma main_start:
  assumes "\<not> monitoring (state w)" "expanduser os text_input \<noteq> []"
    "path_exists os (expanduser os text_input)"
  shows "main os now text_input StartMonitoring w =
     (Title ''Enhanced Real-Time File Viewer''
        # Success (''Started monitoring '' @ expanduser os text_input)
        # display_recent_events now (state w),
      \<lparr>state = (state w)\<lparr>observer := Some (length (observers w)), monitoring := True\<rparr>,
       observers = observers w @ [\<lparr>watch_path = expanduser os text_input, alive = True\<rparr>]\<rparr>)"
  using assms by (simp add: main_def controls_start display_recent_events_def)

lemma first_session:
  "exec [Rerun every_path 0 ''/a'' StartMonitoring,
         Callback 0 1000000 \<lparr>event_type = ''created'', src_path = ''/a/x'', is_directory = False\<rparr>,
         Rerun every_path 2000000 ''/a'' NoClick,
         Rerun every_path 3000000 ''/a'' StopMonitoring] initial_process
   = \<lparr>state = \<lparr>event_queue = [], observer = None,
         event_list = [\<lparr>event_type = ''created'', src_path = ''/a/x'', timestamp = 1\<rparr>],
         monitoring = False\<rparr>,
       observers = [\<lparr>watch_path = ''/a'', alive = False\<rparr>]\<rparr>"
  by (simp add: main_snd monitoring_controls_def start_observer_def stop_observer_def
      check_events_and_update_eq every_path_def initial_process_def initial_session_state_def
      on_any_event_def FileEventWrapper_init_def strftime_def)

text \<open>
  C5: nothing in \<open>file_viewer.py\<close> empties \<open>event_list\<close>: it is created empty once, when
  the session state is, and after that only \<open>check_events_and_update\<close> writes to it, by
  \<open>append\<close>. So the history before any sequence of callbacks and runs of the script is a
  prefix of the history after it, and a successful start (monitoring off, the folder
  exists, the Start button clicked) creates and starts an observer, sets the two session
  fields \<open>observer\<close> and \<open>monitoring\<close>, reports the start, and leaves the history as it was.
\<close>

theorem start_monitoring_keeps_history:
  "prefix (event_list (state w)) (event_list (state (exec xs w)))
   \<and> (\<not> monitoring (state w) \<and> expanduser os text_input \<noteq> []
        \<and> path_exists os (expanduser os text_input) \<longrightarrow>
      snd (main os now text_input StartMonitoring w) =
        \<lparr>state = (state w)\<lparr>observer := Some (length (observers w)), monitoring := True\<rparr>,
         observers = observers w @ [\<lparr>watch_path = expanduser os text_input, alive = True\<rparr>]\<rparr>
      \<and> event_list (state (snd (main os now text_input StartMonitoring w))) = event_list (state w)
      \<and> Success (''Started monitoring '' @ expanduser os text_input)
          \<in> set (fst (main os now text_input StartMonitoring w)))"
  by (simp add: exec_event_list main_start)

theorem start_monitoring_keeps_history_witness:
  "\<not> monitoring (state \<lparr>state = \<lparr>event_queue = [], observer = None,
         event_list = [\<lparr>event_type = ''created'', src_path = ''/a/x'', timestamp = 1\<rparr>],
         monitoring = False\<rparr>,
       observers = [\<lparr>watch_path = ''/a'', alive = False\<rparr>]\<rparr>)
   \<and> expanduser every_path ''/a'' \<noteq> [] \<and> path_exists every_path (expanduser every_path ''/a'')
   \<and> event_list (state (snd (main every_path 4000000 ''/a'' StartMonitoring
        \<lparr>state = \<lparr>event_queue = [], observer = None,
           event_list = [\<lparr>event_type = ''created'', src_path = ''/a/x'', timestamp = 1\<rparr>],
           monitoring = False\<rparr>,
         observers = [\<lparr>watch_path = ''/a'', alive = False\<rparr>]\<rparr>)))
     = [\<lparr>event_type = ''created'', src_path = ''/a/x'', timestamp = 1\<rparr>]"
  using start_monitoring_keeps_history [of
      "\<lparr>state = \<lparr>event_queue = [], observer = None,
         event_list = [\<lparr>event_type = ''created'', src_path = ''/a/x'', timestamp = 1\<rparr>],
         monitoring = False\<rparr>,
       observers = [\<lparr>watch_path = ''/a'', alive = False\<rparr>]\<rparr>" "[]" every_path "''/a''" 4000000]
  by (simp add: every_path_def)

text \<open>
  A first session records one event and is stopped; the run that starts the second
  session keeps that event in the history and shows it among the recent events.
\<close>

theorem history_not_cleared_by_start:
  "main every_path 4000000 ''/a'' StartMonitoring
     (exec [Rerun every_path 0 ''/a'' StartMonitoring,
            Callback 0 1000000 \<lparr>event_type = ''created'', src_path = ''/a/x'', is_directory = False\<rparr>,
            Rerun every_path 2000000 ''/a'' NoClick,
            Rerun every_path 3000000 ''/a'' StopMonitoring] initial_process)
   = ([Title ''Enhanced Real-Time File Viewer'', Success ''Started monitoring /a'',
       Subheader ''New Events'',
       Dataframe [[(''event_type'', Str ''created''), (''src_path'', Str ''/a/x''),
                   (''timestamp'', Stamp 1)]]],
      \<lparr>state = \<lparr>event_queue = [], observer = Some 1,
         event_list = [\<lparr>event_type = ''created'', src_path = ''/a/x'', timestamp = 1\<rparr>],
         monitoring = True\<rparr>,
       observers = [\<lparr>watch_path = ''/a'', alive = False\<rparr>, \<lparr>watch_path = ''/a'', alive = True\<rparr>]\<rparr>)"
  unfolding first_session
  by (simp add: main_def Let_def monitoring_controls_def start_observer_def
      every_path_def display_recent_events_def recent_events_def
      to_dict_def strptime_def timedelta_minutes_def)

section \<open>Clicks that the script does not take\<close>

lemma main_ignored:
  assumes "if monitoring (state w) then c \<noteq> StopMonitoring else c \<noteq> StartMonitoring"
  shows "main os now text_input c w =
     (let w1 = (if monitoring (state w)
                then w\<lparr>state := snd (check_events_and_update (state w))\<rparr> else w)
      in (if expanduser os text_input = [] \<or> \<not> path_exists os (expanduser os text_input)
          then [Title ''Enhanced Real-Time File Viewer'',
                Error ''Please enter a valid folder path.'']
          else Title ''Enhanced Real-Time File Viewer'' # display_recent_events now (state w1),
          w1))"
proof (cases "monitoring (state w)")
  case True
  then have m: "monitoring (state (w\<lparr>state := snd (check_events_and_update (state w))\<rparr>))"
    by (simp add: check_events_and_update_eq)
  from True assms have c: "c \<noteq> StopMonitoring" by simp
  show ?thesis using True by (simp add: main_def Let_def controls_busy [OF m c])
next
  case False
  with assms have c: "c \<noteq> StartMonitoring" by simp
  show ?thesis using False by (simp add: main_def Let_def controls_idle [OF False c])
qed

lemma after_start:
  "snd (main every_path 0 ''/a'' StartMonitoring initial_process)
   = \<lparr>state = \<lparr>event_queue = [], observer = Some 0, event_list = [], monitoring = True\<rparr>,
       observers = [\<lparr>watch_path = ''/a'', alive = True\<rparr>]\<rparr>"
  by (simp add: main_snd monitoring_controls_def start_observer_def every_path_def
      initial_process_def initial_session_state_def)



text \<open>
  C6: while monitoring is on, \<open>main\<close> draws the Stop button and not the Start button, and
  neither source file defines or raises an error for a second start. A run of the script
  that is handed a click on Start while monitoring is on does what a run with no click
  does: it drains the queue into the history, as every run does while monitoring, shows
  the title and the recent events (or the folder error, when the folder text is not an
  existing path), and leaves the session's observer, the monitoring flag and every
  observer thread, with the path it watches, as they were.
\<close>

theorem start_while_monitoring_ignored:
  "monitoring (state w) \<Longrightarrow>
   main os now text_input StartMonitoring w = main os now text_input NoClick w
   \<and> snd (main os now text_input StartMonitoring w)
       = w\<lparr>state := (state w)\<lparr>event_queue := [],
                        event_list := event_list (state w) @ event_queue (state w)\<rparr>\<rparr>
   \<and> fst (main os now text_input StartMonitoring w)
       = (if expanduser os text_input = [] \<or> \<not> path_exists os (expanduser os text_input)
          then [Title ''Enhanced Real-Time File Viewer'',
                Error ''Please enter a valid folder path.'']
          else Title ''Enhanced Real-Time File Viewer''
               # display_recent_events now
                   ((state w)\<lparr>event_queue := [],
                        event_list := event_list (state w) @ event_queue (state w)\<rparr>))
   \<and> observer (state (snd (main os now text_input StartMonitoring w))) = observer (state w)
   \<and> monitoring (state (snd (main os now text_input StartMonitoring w)))
   \<and> observers (snd (main os now text_input StartMonitoring w)) = observers w"
  by (simp add: main_ignored check_events_and_update_eq)

theorem start_while_monitoring_ignored_witness:
  "monitoring (state \<lparr>state = \<lparr>event_queue = [], observer = Some 0, event_list = [],
                               monitoring = True\<rparr>,
                      observers = [\<lparr>watch_path = ''/a'', alive = True\<rparr>]\<rparr>)
   \<and> observers (snd (main every_path 0 ''/b'' StartMonitoring
        \<lparr>state = \<lparr>event_queue = [], observer = Some 0, event_list = [], monitoring = True\<rparr>,
          observers = [\<lparr>watch_path = ''/a'', alive = True\<rparr>]\<rparr>))
     = [\<lparr>watch_path = ''/a'', alive = True\<rparr>]
   \<and> observer (state (snd (main every_path 0 ''/b'' StartMonitoring
        \<lparr>state = \<lparr>event_queue = [], observer = Some 0, event_list = [], monitoring = True\<rparr>,
          observers = [\<lparr>watch_path = ''/a'', alive = True\<rparr>]\<rparr>))) = Some 0"
proof -
  let ?w = "\<lparr>state = \<lparr>event_queue = [], observer = Some 0, event_list = [], monitoring = True\<rparr>,
        observers = [\<lparr>watch_path = ''/a'', alive = True\<rparr>]\<rparr>"
  have m: "monitoring (state ?w)" by simp
  note kept = start_while_monitoring_ignored [of ?w every_path 0 "''/b''", OF m,
      THEN conjunct2, THEN conjunct2, THEN conjunct2]
  from kept have "observer (state (snd (main every_path 0 ''/b'' StartMonitoring ?w))) = Some 0"
    by simp
  moreover from kept have "observers (snd (main every_path 0 ''/b'' StartMonitoring ?w))
      = [\<lparr>watch_path = ''/a'', alive = True\<rparr>]"
    by simp
  ultimately show ?thesis using m by (simp only: simp_thms)
qed

text \<open>
  A session is started on \<open>/a\<close>; the next run has \<open>/b\<close> in the folder input and a click on
  Start. It shows the title and the header of the recent events, no error, and the one
  observer still watches \<open>/a\<close>.
\<close>

theorem start_while_monitoring_no_error:
  "main every_path 0 ''/b'' StartMonitoring
     (snd (main every_path 0 ''/a'' StartMonitoring initial_process))
   = ([Title ''Enhanced Real-Time File Viewer'', Subheader ''New Events''],
      \<lparr>state = \<lparr>event_queue = [], observer = Some 0, event_list = [], monitoring = True\<rparr>,
        observers = [\<lparr>watch_path = ''/a'', alive = True\<rparr>]\<rparr>)"
  unfolding after_start
  by (simp add: main_def Let_def monitoring_controls_def check_events_and_update_eq
      every_path_def display_recent_events_def)



end
